theory Spec2Isabelle
  imports Main
begin

section \<open>gitlab/project.go: projects built from the remote description\<close>

text \<open>
  The remote description of a project is the type \<open>gitlab.Project\<close> of the client
  library. Only the fields read by the sources are kept; they carry the prefix \<open>gl_\<close>
  because \<open>ID\<close>, \<open>Name\<close> and \<open>DefaultBranch\<close> are also fields of the program's own
  \<open>Project\<close>. \<open>gl_Name\<close> is the display name and \<open>gl_Path\<close> the URL slug. Go's \<open>int\<close> is
  only copied and compared, never computed with, so it is an \<open>int\<close> here.
\<close>

record gitlab_Project =
  gl_ID :: int
  gl_Name :: string
  gl_Path :: string
  gl_DefaultBranch :: string
  gl_SSHURLToRepo :: string
  gl_HTTPURLToRepo :: string

record Project =
  ID :: int
  Name :: string
  CloneURL :: string
  DefaultBranch :: string

text \<open>
  Modelled from the spec: the two pull method constants \<open>gitlab.PullMethodHTTP\<close> and
  \<open>gitlab.PullMethodSSH\<close> are declared in a file of package gitlab that is not part of
  the sources at hand. The configuration reference names the two accepted values of
  \<open>pull_method\<close>: "http" and "ssh".
\<close>

definition PullMethodHTTP :: string where
  "PullMethodHTTP = ''http''"

definition PullMethodSSH :: string where
  "PullMethodSSH = ''ssh''"

text \<open>
  \<open>newProjectFromGitlabProject\<close> is a method of the gitlab client and reads one field of
  the receiver, \<open>c.PullMethod\<close>, which is the first argument here. The three steps of the
  body are kept: the struct literal, the fallback of the default branch, the choice of
  the clone URL.
\<close>

definition newProjectFromGitlabProject :: "string \<Rightarrow> gitlab_Project \<Rightarrow> Project" where
  "newProjectFromGitlabProject c_PullMethod project =
     (let p = \<lparr>ID = gl_ID project, Name = gl_Path project, CloneURL = '''',
               DefaultBranch = gl_DefaultBranch project\<rparr>;
          p = (if DefaultBranch p = '''' then p\<lparr>DefaultBranch := ''master''\<rparr> else p);
          p = (if c_PullMethod = PullMethodSSH
               then p\<lparr>CloneURL := gl_SSHURLToRepo project\<rparr>
               else p\<lparr>CloneURL := gl_HTTPURLToRepo project\<rparr>)
      in p)"

section \<open>gitlab/user.go: users and their lazily fetched content\<close>

text \<open>
  \<open>UserContent.Projects\<close> is a Go map from project name to project: a partial function.
  The private field \<open>content\<close> of a user is a pointer that is nil until the first
  successful fetch: an option. The fields \<open>ID\<close> and \<open>Name\<close> of \<open>User\<close> are written
  \<open>User_ID\<close> and \<open>User_Name\<close>, the short names being those of \<open>Project\<close>.
\<close>

record UserContent =
  Projects :: "string \<rightharpoonup> Project"

record User =
  User_ID :: int
  User_Name :: string
  content :: "UserContent option"

text \<open>
  The request options and the response header of the client library, with the fields
  the loop reads and writes.
\<close>

record ListOptions =
  Page :: int
  PerPage :: int

record Response =
  CurrentPage :: int
  TotalPages :: int
  NextPage :: int

text \<open>
  The remote call \<open>c.client.Projects.ListUserProjects(user.ID, listProjectOpt)\<close> belongs
  to the client library. It is a parameter of the model: given the user id and the
  options it answers with an error (its text) or with the projects of the requested
  page and the response header.
\<close>

type_synonym ListUserProjects =
  "int \<Rightarrow> ListOptions \<Rightarrow> string + (gitlab_Project list \<times> Response)"

text \<open>
  The inner loop of \<open>FetchUserContent\<close>: every project of the page is built and stored
  in the map under its name, in the order of the page. The constructor that user.go
  calls, \<open>NewProjectFromGitlabProject\<close>, is a parameter; the sources define the
  constructor above, which the concrete runs below pass in.
\<close>

definition add_projects ::
  "(gitlab_Project \<Rightarrow> Project) \<Rightarrow> gitlab_Project list \<Rightarrow> UserContent \<Rightarrow> UserContent" where
  "add_projects NewProjectFromGitlabProject gitlabProjects content0 =
     fold (\<lambda>gitlabProject c.
             let project = NewProjectFromGitlabProject gitlabProject
             in c\<lparr>Projects := (Projects c)(Name project \<mapsto> project)\<rparr>)
          gitlabProjects content0"

text \<open>
  The outer loop \<open>for { ... }\<close>. Nothing in the code bounds the number of rounds: a remote
  that keeps answering with \<open>CurrentPage < TotalPages\<close> keeps the loop running, and the
  model then has no result (\<open>None\<close>). The last argument records the options of every
  request sent, in order; the result carries that record beside the error or the
  content.
\<close>

partial_function (option) fetch_pages ::
  "ListUserProjects \<Rightarrow> (gitlab_Project \<Rightarrow> Project) \<Rightarrow> int \<Rightarrow> ListOptions \<Rightarrow> UserContent \<Rightarrow>
   ListOptions list \<Rightarrow> ((string + UserContent) \<times> ListOptions list) option" where
  "fetch_pages ListUserProjects NewProjectFromGitlabProject uid listProjectOpt content0 calls =
     (case ListUserProjects uid listProjectOpt of
        Inl err \<Rightarrow>
          Some (Inl (''failed to fetch projects in gitlab: '' @ err), calls @ [listProjectOpt])
      | Inr (gitlabProjects, response) \<Rightarrow>
          (let content1 = add_projects NewProjectFromGitlabProject gitlabProjects content0
           in if CurrentPage response \<ge> TotalPages response
              then Some (Inr content1, calls @ [listProjectOpt])
              else fetch_pages ListUserProjects NewProjectFromGitlabProject uid
                     (listProjectOpt\<lparr>Page := NextPage response\<rparr>) content1
                     (calls @ [listProjectOpt])))"

declare fetch_pages.simps [code]

text \<open>
  \<open>FetchUserContent\<close> returns the error or the content, the user as the call leaves it
  (the code writes \<open>user.content\<close> through the pointer) and the requests sent to the
  remote.
\<close>

definition FetchUserContent ::
  "ListUserProjects \<Rightarrow> (gitlab_Project \<Rightarrow> Project) \<Rightarrow> User \<Rightarrow>
   ((string + UserContent) \<times> User \<times> ListOptions list) option" where
  "FetchUserContent ListUserProjects NewProjectFromGitlabProject user =
     (case content user of
        Some cached \<Rightarrow> Some (Inr cached, user, [])
      | None \<Rightarrow>
          (case fetch_pages ListUserProjects NewProjectFromGitlabProject (User_ID user)
                  \<lparr>Page = 1, PerPage = 1000\<rparr> \<lparr>Projects = Map.empty\<rparr> [] of
             None \<Rightarrow> None
           | Some (Inl err, calls) \<Rightarrow> Some (Inl err, user, calls)
           | Some (Inr fetched, calls) \<Rightarrow>
               Some (Inr fetched, user\<lparr>content := Some fetched\<rparr>, calls)))"

subsection \<open>Remotes\<close>

text \<open>
  What a remote does during one fetch is described from the point of view of the loop.
  \<open>serves lup uid opt pages\<close>: starting from the options \<open>opt\<close> and following the
  \<open>NextPage\<close> of each answer, the remote answers with the pages of \<open>pages\<close>, one per request,
  and announces the end (\<open>CurrentPage \<ge> TotalPages\<close>) on the last of them and not before.
\<close>

fun serves :: "ListUserProjects \<Rightarrow> int \<Rightarrow> ListOptions \<Rightarrow> gitlab_Project list list \<Rightarrow> bool" where
  "serves lup uid opt [] = False"
| "serves lup uid opt [page] =
     (case lup uid opt of
        Inl err \<Rightarrow> False
      | Inr (gitlabProjects, response) \<Rightarrow>
          gitlabProjects = page \<and> CurrentPage response \<ge> TotalPages response)"
| "serves lup uid opt (page # pages) =
     (case lup uid opt of
        Inl err \<Rightarrow> False
      | Inr (gitlabProjects, response) \<Rightarrow>
          gitlabProjects = page \<and> CurrentPage response < TotalPages response \<and>
          serves lup uid (opt\<lparr>Page := NextPage response\<rparr>) pages)"

text \<open>
  \<open>serves_then_fails lup uid opt pages err\<close>: the remote answers the first requests with
  the pages of \<open>pages\<close>, none of them announced as the last, and the next request with
  the error \<open>err\<close>. With \<open>pages = []\<close> the first request fails.
\<close>

fun serves_then_fails ::
  "ListUserProjects \<Rightarrow> int \<Rightarrow> ListOptions \<Rightarrow> gitlab_Project list list \<Rightarrow> string \<Rightarrow> bool" where
  "serves_then_fails lup uid opt [] err = (lup uid opt = Inl err)"
| "serves_then_fails lup uid opt (page # pages) err =
     (case lup uid opt of
        Inl e \<Rightarrow> False
      | Inr (gitlabProjects, response) \<Rightarrow>
          gitlabProjects = page \<and> CurrentPage response < TotalPages response \<and>
          serves_then_fails lup uid (opt\<lparr>Page := NextPage response\<rparr>) pages err)"

text \<open>
  A remote that holds the listing of a user cut into pages and reports it as it is.
  \<open>paginates lup uid pages\<close>: there is at least one page, and the remote answers the
  request for page \<open>i\<close> (with \<open>PerPage = 1000\<close>, as the loop asks) with the \<open>i\<close>-th page of
  \<open>pages\<close>, \<open>CurrentPage = i\<close>, \<open>TotalPages\<close> the number of pages and, on every page but the
  last, \<open>NextPage = i + 1\<close>. \<open>paginates_from\<close> checks the pages from a given number on.
  \<open>paged_remote pages\<close> below is such a remote.
\<close>

fun paginates_from ::
  "ListUserProjects \<Rightarrow> int \<Rightarrow> int \<Rightarrow> int \<Rightarrow> gitlab_Project list list \<Rightarrow> bool" where
  "paginates_from lup uid n_pages page_no [] = True"
| "paginates_from lup uid n_pages page_no (page # pages) =
     (case lup uid \<lparr>Page = page_no, PerPage = 1000\<rparr> of
        Inl err \<Rightarrow> False
      | Inr (gitlabProjects, response) \<Rightarrow>
          gitlabProjects = page \<and> CurrentPage response = page_no \<and>
          TotalPages response = n_pages \<and>
          (pages = [] \<or> NextPage response = page_no + 1) \<and>
          paginates_from lup uid n_pages (page_no + 1) pages)"

definition paginates :: "ListUserProjects \<Rightarrow> int \<Rightarrow> gitlab_Project list list \<Rightarrow> bool" where
  "paginates lup uid pages =
     (pages \<noteq> [] \<and> paginates_from lup uid (int (length pages)) 1 pages)"

text \<open>The requests for the pages 1 to \<open>n\<close>, in order.\<close>

definition requests :: "nat \<Rightarrow> ListOptions list" where
  "requests n = map (\<lambda>k. \<lparr>Page = 1 + int k, PerPage = 1000\<rparr>) [0..<n]"

text \<open>
  Two concrete remotes for the runs below. \<open>paged_remote pages\<close> numbers its pages from
  1, reports their count as \<open>TotalPages\<close> and 0 as the \<open>NextPage\<close> of the last page.
  \<open>failing_remote pages err\<close> serves the same pages, announces one page more than it
  has, and fails with \<open>err\<close> on every request outside its pages.
\<close>

definition paged_remote :: "gitlab_Project list list \<Rightarrow> ListUserProjects" where
  "paged_remote pages uid opt =
     Inr (if 1 \<le> Page opt \<and> Page opt \<le> int (length pages)
          then pages ! nat (Page opt - 1) else [],
          \<lparr>CurrentPage = Page opt, TotalPages = int (length pages),
           NextPage = (if Page opt < int (length pages) then Page opt + 1 else 0)\<rparr>)"

definition failing_remote :: "gitlab_Project list list \<Rightarrow> string \<Rightarrow> ListUserProjects" where
  "failing_remote pages err uid opt =
     (if 1 \<le> Page opt \<and> Page opt \<le> int (length pages)
      then Inr (pages ! nat (Page opt - 1),
                \<lparr>CurrentPage = Page opt, TotalPages = int (length pages) + 1,
                 NextPage = Page opt + 1\<rparr>)
      else Inl err)"

section \<open>main.go: configuration and startup\<close>

record FSConfig =
  Mountpoint :: string
  MountOptions :: string

record GitlabConfig =
  URL :: string
  Token :: string
  GroupIDs :: "int list"
  UserIDs :: "int list"
  IncludeCurrentUser :: bool

record GitConfig =
  CloneLocation :: string
  Remote :: string
  PullMethod :: string
  OnClone :: string
  AutoPull :: bool
  Depth :: int
  QueueSize :: int
  QueueWorkerCount :: int

record Config =
  FS :: FSConfig
  Gitlab :: GitlabConfig
  Git :: GitConfig

text \<open>
  The defaults of \<open>loadConfig\<close>. The default clone location is computed from the
  environment and is the argument. Reading and decoding the configuration file is left
  out: \<open>main\<close> below takes the outcome of \<open>loadConfig\<close>, an error text or a configuration.
\<close>

definition default_Config :: "string \<Rightarrow> Config" where
  "default_Config defaultCloneLocation =
     \<lparr>FS = \<lparr>Mountpoint = '''', MountOptions = ''nodev,nosuid''\<rparr>,
      Gitlab = \<lparr>URL = ''https://gitlab.com'', Token = '''', GroupIDs = [9970], UserIDs = [],
                IncludeCurrentUser = True\<rparr>,
      Git = \<lparr>CloneLocation = defaultCloneLocation, Remote = ''origin'', PullMethod = ''http'',
             OnClone = ''init'', AutoPull = False, Depth = 0, QueueSize = 200,
             QueueWorkerCount = 5\<rparr>\<rparr>"

text \<open>
  The parameter structs of the packages gitlab and git, as \<open>main.go\<close> fills them. Their
  fields carry the package name as a prefix. The numeric values of \<open>git.CloneInit\<close> and
  \<open>git.CloneClone\<close> are not in the sources: the two constants are the two values of a
  datatype. The parsed URL is a value of the library type \<open>url.URL\<close>, a type parameter
  here.
\<close>

record GitlabClientParam =
  gitlab_PullMethod :: string
  gitlab_IncludeCurrentUser :: bool

datatype CloneMethod = CloneInit | CloneClone

record 'url GitClientParam =
  git_CloneLocation :: string
  git_RemoteName :: string
  git_RemoteURL :: 'url
  git_CloneMethod :: CloneMethod
  git_AutoPull :: bool
  git_PullDepth :: int
  git_QueueSize :: int
  git_QueueWorkerCount :: int

text \<open>The double quote character of the error messages.\<close>

definition quote :: string where
  "quote = [CHR 0x22]"

definition makeGitlabConfig :: "Config \<Rightarrow> string + GitlabClientParam" where
  "makeGitlabConfig config =
     (if PullMethod (Git config) \<noteq> PullMethodHTTP \<and> PullMethod (Git config) \<noteq> PullMethodSSH
      then Inl (''pull_method must be either '' @ quote @ PullMethodHTTP @ quote @ '' or '' @
                quote @ PullMethodSSH @ quote)
      else Inr \<lparr>gitlab_PullMethod = PullMethod (Git config),
                gitlab_IncludeCurrentUser =
                  (IncludeCurrentUser (Gitlab config) \<and> Token (Gitlab config) \<noteq> '''')\<rparr>)"

text \<open>
  \<open>url.Parse\<close> is a library function that may fail: a parameter of \<open>makeGitConfig\<close>.
\<close>

definition makeGitConfig ::
  "(string \<Rightarrow> string + 'url) \<Rightarrow> Config \<Rightarrow> string + 'url GitClientParam" where
  "makeGitConfig url_Parse config =
     (case url_Parse (URL (Gitlab config)) of
        Inl err \<Rightarrow> Inl err
      | Inr parsedGitlabURL \<Rightarrow>
          (case (if OnClone (Git config) = ''init'' then Inr CloneInit
                 else if OnClone (Git config) = ''clone'' then Inr CloneClone
                 else Inl (''on_clone must be either '' @ quote @ ''init'' @ quote @ '' or '' @
                           quote @ ''clone'' @ quote)) of
             Inl err \<Rightarrow> Inl err
           | Inr cloneMethod \<Rightarrow>
               Inr \<lparr>git_CloneLocation = CloneLocation (Git config),
                    git_RemoteName = Remote (Git config),
                    git_RemoteURL = parsedGitlabURL,
                    git_CloneMethod = cloneMethod,
                    git_AutoPull = AutoPull (Git config),
                    git_PullDepth = Depth (Git config),
                    git_QueueSize = QueueSize (Git config),
                    git_QueueWorkerCount = QueueWorkerCount (Git config)\<rparr>))"

text \<open>\<open>strings.Split\<close> with a separator of one character.\<close>

fun strings_Split :: "string \<Rightarrow> char \<Rightarrow> string list" where
  "strings_Split [] sep = [[]]"
| "strings_Split (c # cs) sep =
     (if c = sep then [] # strings_Split cs sep
      else (case strings_Split cs sep of
              [] \<Rightarrow> [[c]]
            | w # ws \<Rightarrow> (c # w) # ws))"

text \<open>
  What \<open>main\<close> does to the outside, in order: lines printed, the usage text, the
  construction of the git client (which owns the queue of git operations: it receives
  the queue size and the worker count), the construction of the gitlab client, and the
  start of the filesystem, which builds the tree from the two clients, the group ids
  and the user ids. The errors of the two client constructors are discarded by \<open>main\<close>
  (\<open>gitClient, _ := ...\<close>), so the constructors appear as actions only.
\<close>

datatype 'url action =
    Println string
  | flag_Usage
  | git_NewClient "'url GitClientParam"
  | gitlab_NewClient string string GitlabClientParam
  | fs_Start string "string list" "int list" "int list" bool

text \<open>
  \<open>main\<close> from the call of \<open>loadConfig\<close> on. Arguments: \<open>url.Parse\<close>; the error returned by
  \<open>fs.Start\<close>, if any; the outcome of \<open>loadConfig\<close>; the positional arguments of the command
  line; the values of the flags \<open>-o\<close> and \<open>-debug\<close>. Result: the actions in order and the
  exit status (0 when \<open>main\<close> returns).
\<close>

definition main ::
  "(string \<Rightarrow> string + 'url) \<Rightarrow> string option \<Rightarrow> string + Config \<Rightarrow> string list \<Rightarrow> string \<Rightarrow> bool \<Rightarrow>
   'url action list \<times> int" where
  "main url_Parse fs_Start_err loaded args mountoptionsFlag debug =
     (case loaded of
        Inl err \<Rightarrow> ([Println err], 1)
      | Inr config \<Rightarrow>
          (let mountpoint = (if length args = 1 then hd args else Mountpoint (FS config))
           in if mountpoint = ''''
              then ([Println ''Mountpoint is not configured in config file and missing from command-line arguments'',
                     flag_Usage], 2)
              else
                (let mountoptions = (if mountoptionsFlag \<noteq> '''' then mountoptionsFlag
                                     else MountOptions (FS config));
                     parsedMountoptions = (if mountoptions \<noteq> ''''
                                           then strings_Split mountoptions (CHR '','') else [])
                 in case makeGitConfig url_Parse config of
                      Inl err \<Rightarrow> ([Println err], 1)
                    | Inr gitClientParam \<Rightarrow>
                        (case makeGitlabConfig config of
                           Inl err \<Rightarrow> ([git_NewClient gitClientParam, Println err], 1)
                         | Inr gitlabClientParam \<Rightarrow>
                             (let started =
                                    [git_NewClient gitClientParam,
                                     gitlab_NewClient (URL (Gitlab config)) (Token (Gitlab config))
                                       gitlabClientParam,
                                     fs_Start mountpoint parsedMountoptions
                                       (GroupIDs (Gitlab config)) (UserIDs (Gitlab config)) debug]
                              in case fs_Start_err of
                                   Some err \<Rightarrow> (started @ [Println err], 1)
                                 | None \<Rightarrow> (started, 0))))))"

section \<open>Properties of the project constructor\<close>

text \<open>
  C3. The clone URL of the constructed project is decided by the pull method alone:
  under the SSH pull method it is the SSH URL of the remote project, under the HTTP
  pull method it is the HTTP URL of the remote project, whatever the project. The
  choice reads nothing but the pull method of the client, so all the projects built by
  one client get URLs of one and the same form.
\<close>

theorem clone_url_by_pull_method:
  "CloneURL (newProjectFromGitlabProject PullMethodSSH project) = gl_SSHURLToRepo project \<and>
   CloneURL (newProjectFromGitlabProject PullMethodHTTP project) = gl_HTTPURLToRepo project \<and>
   CloneURL (newProjectFromGitlabProject c_PullMethod project) =
     (if c_PullMethod = PullMethodSSH then gl_SSHURLToRepo project
      else gl_HTTPURLToRepo project) \<and>
   map CloneURL (map (newProjectFromGitlabProject c_PullMethod) projects) =
     (if c_PullMethod = PullMethodSSH then map gl_SSHURLToRepo projects
      else map gl_HTTPURLToRepo projects)"
  by (simp add: newProjectFromGitlabProject_def Let_def PullMethodSSH_def PullMethodHTTP_def)

text \<open>
  C4. A remote project with an empty default branch gives a project whose default
  branch is the fixed value "master"; a remote project with a non-empty default branch
  gives a project with that same default branch.
\<close>

theorem default_branch_fallback:
  "(gl_DefaultBranch project = '''' \<longrightarrow>
      DefaultBranch (newProjectFromGitlabProject c_PullMethod project) = ''master'') \<and>
   (gl_DefaultBranch project \<noteq> '''' \<longrightarrow>
      DefaultBranch (newProjectFromGitlabProject c_PullMethod project) = gl_DefaultBranch project)"
  by (simp add: newProjectFromGitlabProject_def Let_def)

theorem default_branch_fallback_witness:
  "DefaultBranch (newProjectFromGitlabProject ''ssh''
     \<lparr>gl_ID = 7, gl_Name = ''Tools'', gl_Path = ''tools'', gl_DefaultBranch = '''',
      gl_SSHURLToRepo = ''git@host:u/tools.git'',
      gl_HTTPURLToRepo = ''https://host/u/tools.git''\<rparr>) = ''master'' \<and>
   DefaultBranch (newProjectFromGitlabProject ''ssh''
     \<lparr>gl_ID = 8, gl_Name = ''Docs'', gl_Path = ''docs'', gl_DefaultBranch = ''main'',
      gl_SSHURLToRepo = ''git@host:u/docs.git'',
      gl_HTTPURLToRepo = ''https://host/u/docs.git''\<rparr>) = ''main''"
  using default_branch_fallback [of "\<lparr>gl_ID = 7, gl_Name = ''Tools'', gl_Path = ''tools'',
      gl_DefaultBranch = '''', gl_SSHURLToRepo = ''git@host:u/tools.git'',
      gl_HTTPURLToRepo = ''https://host/u/tools.git''\<rparr>" "''ssh''"]
    default_branch_fallback [of "\<lparr>gl_ID = 8, gl_Name = ''Docs'', gl_Path = ''docs'',
      gl_DefaultBranch = ''main'', gl_SSHURLToRepo = ''git@host:u/docs.git'',
      gl_HTTPURLToRepo = ''https://host/u/docs.git''\<rparr>" "''ssh''"]
  by simp

text \<open>
  C10. The name of the constructed project is the \<open>Path\<close> field of the remote project
  (the URL slug), whatever its display name, and its id is the remote id.
\<close>

theorem name_is_path_and_id_copied:
  "Name (newProjectFromGitlabProject c_PullMethod project) = gl_Path project \<and>
   Name (newProjectFromGitlabProject c_PullMethod (project\<lparr>gl_Name := display\<rparr>)) = gl_Path project \<and>
   ID (newProjectFromGitlabProject c_PullMethod project) = gl_ID project"
  by (simp add: newProjectFromGitlabProject_def Let_def)

section \<open>Properties of the user content fetch\<close>

subsection \<open>The inner loop\<close>

lemma add_projects_append:
  "add_projects mk (xs @ ys) c = add_projects mk ys (add_projects mk xs c)"
  by (simp add: add_projects_def)

text \<open>
  After the inner loop a name holds the last listed project of that name, and a name
  that no listed project has keeps what it held before.
\<close>

lemma Projects_add_projects:
  "Projects (add_projects mk gps c) n =
     (case filter (\<lambda>gp. Name (mk gp) = n) gps of
        [] \<Rightarrow> Projects c n
      | fs \<Rightarrow> Some (mk (last fs)))"
proof (induction gps rule: rev_induct)
  case Nil
  show ?case by (simp add: add_projects_def)
next
  case (snoc x xs)
  show ?case
    using snoc.IH
    by (simp add: add_projects_append, simp add: add_projects_def Let_def split: list.splits)
qed

lemma dom_add_projects:
  "dom (Projects (add_projects mk gps c)) = dom (Projects c) \<union> (\<lambda>gp. Name (mk gp)) ` set gps"
proof (rule set_eqI)
  fix n
  show "n \<in> dom (Projects (add_projects mk gps c)) \<longleftrightarrow>
        n \<in> dom (Projects c) \<union> (\<lambda>gp. Name (mk gp)) ` set gps"
  proof (cases "filter (\<lambda>gp. Name (mk gp) = n) gps")
    case Nil
    then have "n \<notin> (\<lambda>gp. Name (mk gp)) ` set gps"
      by (auto simp: filter_empty_conv)
    with Nil show ?thesis
      by (simp add: dom_def Projects_add_projects)
  next
    case (Cons f fs)
    then have "f \<in> set (filter (\<lambda>gp. Name (mk gp) = n) gps)" by simp
    then have "n \<in> (\<lambda>gp. Name (mk gp)) ` set gps" by auto
    with Cons show ?thesis
      by (simp add: dom_def Projects_add_projects)
  qed
qed

lemma filter_key_distinct:
  "distinct (map f xs) \<Longrightarrow> x \<in> set xs \<Longrightarrow> filter (\<lambda>y. f y = f x) xs = [x]"
proof (induction xs)
  case Nil
  then show ?case by simp
next
  case (Cons a xs)
  show ?case
  proof (cases "x = a")
    case True
    have "f a \<notin> f ` set xs"
      using Cons.prems(1) by simp
    then have "\<forall>y\<in>set xs. f y \<noteq> f a"
      by (metis imageI)
    then have "filter (\<lambda>y. f y = f a) xs = []"
      by (simp add: filter_empty_conv)
    with True show ?thesis by simp
  next
    case False
    with Cons.prems have "x \<in> set xs" "f a \<noteq> f x" by auto
    with Cons show ?thesis by simp
  qed
qed

lemma Projects_add_projects_distinct:
  "distinct (map (\<lambda>gp. Name (mk gp)) gps) \<Longrightarrow> gp \<in> set gps \<Longrightarrow>
   Projects (add_projects mk gps c) (Name (mk gp)) = Some (mk gp)"
  using filter_key_distinct [of "\<lambda>gp. Name (mk gp)" gps gp]
  by (simp add: Projects_add_projects)

text \<open>
  When no two listed projects share a name, the outcome of the inner loop does not
  depend on the order of the listing.
\<close>

lemma add_projects_order_irrelevant:
  assumes "distinct (map (\<lambda>gp. Name (mk gp)) xs)" "distinct (map (\<lambda>gp. Name (mk gp)) ys)"
    and "set xs = set ys"
  shows "add_projects mk xs c = add_projects mk ys c"
proof -
  have "Projects (add_projects mk xs c) n = Projects (add_projects mk ys c) n" for n
  proof (cases "n \<in> (\<lambda>gp. Name (mk gp)) ` set xs")
    case True
    then obtain gp where "gp \<in> set xs" "n = Name (mk gp)" by auto
    with assms show ?thesis
      by (simp add: Projects_add_projects_distinct)
  next
    case False
    then have "filter (\<lambda>gp. Name (mk gp) = n) xs = []"
      by (auto simp: filter_empty_conv)
    moreover from False assms(3) have "filter (\<lambda>gp. Name (mk gp) = n) ys = []"
      by (auto simp: filter_empty_conv)
    ultimately show ?thesis
      by (simp add: Projects_add_projects)
  qed
  then have "Projects (add_projects mk xs c) = Projects (add_projects mk ys c)"
    by (rule ext)
  moreover have "UserContent.more (add_projects mk zs c) = UserContent.more c" for zs
    by (induction zs rule: rev_induct) (simp_all add: add_projects_def Let_def)
  ultimately show ?thesis
    by (simp add: UserContent.equality)
qed

subsection \<open>The outer loop\<close>

lemma fetch_pages_serves:
  "serves lup uid opt pages \<Longrightarrow>
   \<exists>sent. fetch_pages lup mk uid opt c calls =
      Some (Inr (add_projects mk (concat pages) c), calls @ sent) \<and> length sent = length pages"
proof (induction lup uid opt pages arbitrary: c calls rule: serves.induct)
  case (1 lup uid opt)
  then show ?case by simp
next
  case (2 lup uid opt page)
  then show ?case
    by (subst fetch_pages.simps) (auto split: sum.splits simp: Let_def)
next
  case (3 lup uid opt page v va)
  from "3.prems" obtain response where
    r: "lup uid opt = Inr (page, response)" "CurrentPage response < TotalPages response"
       "serves lup uid (opt\<lparr>Page := NextPage response\<rparr>) (v # va)"
    by (auto split: sum.splits)
  from "3.IH" [OF r(1) refl r(3), of "add_projects mk page c" "calls @ [opt]"]
  obtain sent where m: "fetch_pages lup mk uid (opt\<lparr>Page := NextPage response\<rparr>)
      (add_projects mk page c) (calls @ [opt]) =
      Some (Inr (add_projects mk (concat (v # va)) (add_projects mk page c)), (calls @ [opt]) @ sent)"
      "length sent = length (v # va)"
    by blast
  show ?case
    by (subst fetch_pages.simps) (use r m in \<open>auto simp: Let_def add_projects_append\<close>)
qed

lemma fetch_pages_fails:
  "serves_then_fails lup uid opt pages err \<Longrightarrow>
   \<exists>sent. fetch_pages lup mk uid opt c calls =
      Some (Inl (''failed to fetch projects in gitlab: '' @ err), calls @ sent) \<and>
      length sent = Suc (length pages)"
proof (induction pages arbitrary: opt c calls)
  case Nil
  then show ?case
    by (subst fetch_pages.simps) simp
next
  case (Cons page pages)
  from Cons.prems obtain response where
    r: "lup uid opt = Inr (page, response)" "CurrentPage response < TotalPages response"
       "serves_then_fails lup uid (opt\<lparr>Page := NextPage response\<rparr>) pages err"
    by (auto split: sum.splits)
  from Cons.IH [OF r(3), of "add_projects mk page c" "calls @ [opt]"]
  obtain sent where m: "fetch_pages lup mk uid (opt\<lparr>Page := NextPage response\<rparr>)
      (add_projects mk page c) (calls @ [opt]) =
      Some (Inl (''failed to fetch projects in gitlab: '' @ err), (calls @ [opt]) @ sent)"
      "length sent = Suc (length pages)"
    by blast
  show ?case
    by (subst fetch_pages.simps) (use r m in \<open>auto simp: Let_def\<close>)
qed

lemma FetchUserContent_serves:
  assumes "serves lup (User_ID user) \<lparr>Page = 1, PerPage = 1000\<rparr> pages"
    and "content user = None"
  shows "\<exists>calls. FetchUserContent lup mk user =
           Some (Inr (add_projects mk (concat pages) \<lparr>Projects = Map.empty\<rparr>),
                 user\<lparr>content := Some (add_projects mk (concat pages) \<lparr>Projects = Map.empty\<rparr>)\<rparr>,
                 calls) \<and>
         length calls = length pages"
  using fetch_pages_serves [OF assms(1), of mk "\<lparr>Projects = Map.empty\<rparr>" "[]"] assms(2)
  by (auto simp: FetchUserContent_def)

subsection \<open>Claims\<close>

text \<open>
  C1, as the code has it. When the remote lists two projects of the same name, the call
  returns, and the content holds one entry under that name, the project listed last;
  the earlier one is gone. Here the two projects share the path \<open>tools\<close>.
\<close>

theorem same_name_projects_counterexample:
  "FetchUserContent
     (paged_remote
        [[\<lparr>gl_ID = 1, gl_Name = ''Tools'', gl_Path = ''tools'', gl_DefaultBranch = ''main'',
           gl_SSHURLToRepo = ''git@host:alice/tools.git'',
           gl_HTTPURLToRepo = ''https://host/alice/tools.git''\<rparr>,
          \<lparr>gl_ID = 2, gl_Name = ''Tools 2'', gl_Path = ''tools'', gl_DefaultBranch = ''main'',
           gl_SSHURLToRepo = ''git@host:bob/tools.git'',
           gl_HTTPURLToRepo = ''https://host/bob/tools.git''\<rparr>]])
     (newProjectFromGitlabProject ''http'')
     \<lparr>User_ID = 42, User_Name = ''alice'', content = None\<rparr> =
   Some (Inr \<lparr>Projects = [''tools'' \<mapsto>
                 \<lparr>ID = 2, Name = ''tools'', CloneURL = ''https://host/bob/tools.git'',
                  DefaultBranch = ''main''\<rparr>]\<rparr>,
         \<lparr>User_ID = 42, User_Name = ''alice'',
          content = Some \<lparr>Projects = [''tools'' \<mapsto>
                 \<lparr>ID = 2, Name = ''tools'', CloneURL = ''https://host/bob/tools.git'',
                  DefaultBranch = ''main''\<rparr>]\<rparr>\<rparr>,
         [\<lparr>Page = 1, PerPage = 1000\<rparr>]) \<and>
   \<lparr>ID = 1, Name = ''tools'', CloneURL = ''https://host/alice/tools.git'',
    DefaultBranch = ''main''\<rparr> \<notin>
   ran [''tools'' \<mapsto>
          \<lparr>ID = 2, Name = ''tools'', CloneURL = ''https://host/bob/tools.git'',
           DefaultBranch = ''main''\<rparr>]"
  by (simp add: FetchUserContent_def fetch_pages.simps paged_remote_def add_projects_def
      newProjectFromGitlabProject_def PullMethodSSH_def Let_def)

text \<open>
  C1, amended. For every listing that a remote serves, whatever names collide, the call
  returns a content and caches it; under every name the content holds the project of
  that name that was listed last, and nothing under a name that no listed project has.
  So colliding names are resolved in a fixed way, the last listed wins, and the earlier
  projects of that name have no entry.
\<close>

theorem same_name_last_listed_wins:
  assumes "serves lup (User_ID user) \<lparr>Page = 1, PerPage = 1000\<rparr> pages"
    and "content user = None"
  shows "\<exists>fetched calls.
           FetchUserContent lup mk user =
             Some (Inr fetched, user\<lparr>content := Some fetched\<rparr>, calls) \<and>
           (\<forall>n. Projects fetched n =
                  (case filter (\<lambda>gp. Name (mk gp) = n) (concat pages) of
                     [] \<Rightarrow> None
                   | fs \<Rightarrow> Some (mk (last fs))))"
  using FetchUserContent_serves [OF assms, of mk]
  by (auto simp: Projects_add_projects split: list.splits)

theorem same_name_last_listed_wins_witness:
  "serves
     (paged_remote
        [[\<lparr>gl_ID = 1, gl_Name = ''Tools'', gl_Path = ''tools'', gl_DefaultBranch = ''main'',
           gl_SSHURLToRepo = ''git@host:alice/tools.git'',
           gl_HTTPURLToRepo = ''https://host/alice/tools.git''\<rparr>,
          \<lparr>gl_ID = 2, gl_Name = ''Tools 2'', gl_Path = ''tools'', gl_DefaultBranch = ''main'',
           gl_SSHURLToRepo = ''git@host:bob/tools.git'',
           gl_HTTPURLToRepo = ''https://host/bob/tools.git''\<rparr>]])
     42 \<lparr>Page = 1, PerPage = 1000\<rparr>
     [[\<lparr>gl_ID = 1, gl_Name = ''Tools'', gl_Path = ''tools'', gl_DefaultBranch = ''main'',
        gl_SSHURLToRepo = ''git@host:alice/tools.git'',
        gl_HTTPURLToRepo = ''https://host/alice/tools.git''\<rparr>,
       \<lparr>gl_ID = 2, gl_Name = ''Tools 2'', gl_Path = ''tools'', gl_DefaultBranch = ''main'',
        gl_SSHURLToRepo = ''git@host:bob/tools.git'',
        gl_HTTPURLToRepo = ''https://host/bob/tools.git''\<rparr>]] \<and>
   (\<exists>fetched calls.
      FetchUserContent
        (paged_remote
           [[\<lparr>gl_ID = 1, gl_Name = ''Tools'', gl_Path = ''tools'', gl_DefaultBranch = ''main'',
              gl_SSHURLToRepo = ''git@host:alice/tools.git'',
              gl_HTTPURLToRepo = ''https://host/alice/tools.git''\<rparr>,
             \<lparr>gl_ID = 2, gl_Name = ''Tools 2'', gl_Path = ''tools'', gl_DefaultBranch = ''main'',
              gl_SSHURLToRepo = ''git@host:bob/tools.git'',
              gl_HTTPURLToRepo = ''https://host/bob/tools.git''\<rparr>]])
        (newProjectFromGitlabProject ''ssh'')
        \<lparr>User_ID = 42, User_Name = ''alice'', content = None\<rparr> =
        Some (Inr fetched,
              \<lparr>User_ID = 42, User_Name = ''alice'', content = Some fetched\<rparr>, calls) \<and>
      Projects fetched ''tools'' =
        Some \<lparr>ID = 2, Name = ''tools'', CloneURL = ''git@host:bob/tools.git'',
              DefaultBranch = ''main''\<rparr> \<and>
      Projects fetched ''docs'' = None)"
proof -
  let ?p1 = "\<lparr>gl_ID = 1, gl_Name = ''Tools'', gl_Path = ''tools'', gl_DefaultBranch = ''main'',
           gl_SSHURLToRepo = ''git@host:alice/tools.git'',
           gl_HTTPURLToRepo = ''https://host/alice/tools.git''\<rparr>"
  let ?p2 = "\<lparr>gl_ID = 2, gl_Name = ''Tools 2'', gl_Path = ''tools'', gl_DefaultBranch = ''main'',
           gl_SSHURLToRepo = ''git@host:bob/tools.git'',
           gl_HTTPURLToRepo = ''https://host/bob/tools.git''\<rparr>"
  let ?u = "\<lparr>User_ID = 42, User_Name = ''alice'', content = None\<rparr>"
  have s: "serves (paged_remote [[?p1, ?p2]]) (User_ID ?u) \<lparr>Page = 1, PerPage = 1000\<rparr> [[?p1, ?p2]]"
    by (simp add: paged_remote_def)
  have c: "content ?u = None" by simp
  from same_name_last_listed_wins [OF s c, of "newProjectFromGitlabProject ''ssh''"]
  obtain fetched calls where
    f: "FetchUserContent (paged_remote [[?p1, ?p2]]) (newProjectFromGitlabProject ''ssh'') ?u =
          Some (Inr fetched, ?u\<lparr>content := Some fetched\<rparr>, calls)"
    and p: "\<And>n. Projects fetched n =
              (case filter (\<lambda>gp. Name (newProjectFromGitlabProject ''ssh'' gp) = n)
                      (concat [[?p1, ?p2]]) of
                 [] \<Rightarrow> None
               | fs \<Rightarrow> Some (newProjectFromGitlabProject ''ssh'' (last fs)))"
    by blast
  have "Projects fetched ''tools'' =
        Some \<lparr>ID = 2, Name = ''tools'', CloneURL = ''git@host:bob/tools.git'',
              DefaultBranch = ''main''\<rparr>"
    by (simp add: p newProjectFromGitlabProject_def PullMethodSSH_def Let_def)
  moreover have "Projects fetched ''docs'' = None"
    by (simp add: p newProjectFromGitlabProject_def PullMethodSSH_def Let_def)
  ultimately show ?thesis
    using s f by auto
qed

text \<open>
  C5. After one successful call, a later call on the user as that call left it returns
  the same content, leaves the user as it is and sends no request, whatever the remote
  would answer by then.
\<close>

theorem cached_content_without_fetch:
  assumes "FetchUserContent lup mk user = Some (Inr fetched, user', calls)"
  shows "FetchUserContent lup' mk' user' = Some (Inr fetched, user', [])"
  using assms
  by (auto simp: FetchUserContent_def split: option.splits sum.splits prod.splits)

theorem cached_content_without_fetch_witness:
  "FetchUserContent
     (paged_remote
        [[\<lparr>gl_ID = 5, gl_Name = ''Notes'', gl_Path = ''notes'', gl_DefaultBranch = '''',
           gl_SSHURLToRepo = ''git@host:carol/notes.git'',
           gl_HTTPURLToRepo = ''https://host/carol/notes.git''\<rparr>]])
     (newProjectFromGitlabProject ''http'')
     \<lparr>User_ID = 9, User_Name = ''carol'', content = None\<rparr> =
   Some (Inr \<lparr>Projects = [''notes'' \<mapsto>
                 \<lparr>ID = 5, Name = ''notes'', CloneURL = ''https://host/carol/notes.git'',
                  DefaultBranch = ''master''\<rparr>]\<rparr>,
         \<lparr>User_ID = 9, User_Name = ''carol'',
          content = Some \<lparr>Projects = [''notes'' \<mapsto>
                 \<lparr>ID = 5, Name = ''notes'', CloneURL = ''https://host/carol/notes.git'',
                  DefaultBranch = ''master''\<rparr>]\<rparr>\<rparr>,
         [\<lparr>Page = 1, PerPage = 1000\<rparr>]) \<and>
   FetchUserContent (failing_remote [] ''unreachable'') (newProjectFromGitlabProject ''ssh'')
     \<lparr>User_ID = 9, User_Name = ''carol'',
      content = Some \<lparr>Projects = [''notes'' \<mapsto>
                 \<lparr>ID = 5, Name = ''notes'', CloneURL = ''https://host/carol/notes.git'',
                  DefaultBranch = ''master''\<rparr>]\<rparr>\<rparr> =
   Some (Inr \<lparr>Projects = [''notes'' \<mapsto>
                 \<lparr>ID = 5, Name = ''notes'', CloneURL = ''https://host/carol/notes.git'',
                  DefaultBranch = ''master''\<rparr>]\<rparr>,
         \<lparr>User_ID = 9, User_Name = ''carol'',
          content = Some \<lparr>Projects = [''notes'' \<mapsto>
                 \<lparr>ID = 5, Name = ''notes'', CloneURL = ''https://host/carol/notes.git'',
                  DefaultBranch = ''master''\<rparr>]\<rparr>\<rparr>,
         [])"
proof -
  have first: "FetchUserContent
     (paged_remote
        [[\<lparr>gl_ID = 5, gl_Name = ''Notes'', gl_Path = ''notes'', gl_DefaultBranch = '''',
           gl_SSHURLToRepo = ''git@host:carol/notes.git'',
           gl_HTTPURLToRepo = ''https://host/carol/notes.git''\<rparr>]])
     (newProjectFromGitlabProject ''http'')
     \<lparr>User_ID = 9, User_Name = ''carol'', content = None\<rparr> =
   Some (Inr \<lparr>Projects = [''notes'' \<mapsto>
                 \<lparr>ID = 5, Name = ''notes'', CloneURL = ''https://host/carol/notes.git'',
                  DefaultBranch = ''master''\<rparr>]\<rparr>,
         \<lparr>User_ID = 9, User_Name = ''carol'',
          content = Some \<lparr>Projects = [''notes'' \<mapsto>
                 \<lparr>ID = 5, Name = ''notes'', CloneURL = ''https://host/carol/notes.git'',
                  DefaultBranch = ''master''\<rparr>]\<rparr>\<rparr>,
         [\<lparr>Page = 1, PerPage = 1000\<rparr>])"
    by (simp add: FetchUserContent_def fetch_pages.simps paged_remote_def add_projects_def
        newProjectFromGitlabProject_def PullMethodSSH_def Let_def)
  from first cached_content_without_fetch [OF first,
      of "failing_remote [] ''unreachable''" "newProjectFromGitlabProject ''ssh''"]
  show ?thesis by (rule conjI)
qed

lemma FetchUserContent_fails:
  assumes "serves_then_fails lup (User_ID user) \<lparr>Page = 1, PerPage = 1000\<rparr> pages err"
    and "content user = None"
  shows "\<exists>calls. FetchUserContent lup mk user =
           Some (Inl (''failed to fetch projects in gitlab: '' @ err), user, calls) \<and>
         length calls = Suc (length pages)"
  using fetch_pages_fails [OF assms(1), of mk "\<lparr>Projects = Map.empty\<rparr>" "[]"] assms(2)
  by (auto simp: FetchUserContent_def)

lemma FetchUserContent_error_user:
  assumes "FetchUserContent lup mk user = Some (Inl e, user', calls)"
  shows "user' = user \<and> content user = None"
  using assms
  by (auto simp: FetchUserContent_def split: option.splits sum.splits prod.splits)

text \<open>
  C7. When the remote fails on any request of the fetch, after any number of pages
  served, the call returns the error, wrapped, and leaves the user as it was, with no
  content cached. A call that returns an error never changes the user, so the pages
  read before the failure are stored nowhere; and a later call, to a remote that then
  serves its pages, fetches again from the first page and returns the content of those
  pages alone.
\<close>

theorem fetch_error_leaves_cache_unset:
  "(serves_then_fails lup (User_ID user) \<lparr>Page = 1, PerPage = 1000\<rparr> pages err \<and>
    content user = None \<longrightarrow>
      (\<exists>calls. FetchUserContent lup mk user =
                 Some (Inl (''failed to fetch projects in gitlab: '' @ err), user, calls) \<and>
               length calls = Suc (length pages))) \<and>
   (FetchUserContent lup mk user = Some (Inl e, user', sent) \<longrightarrow>
      user' = user \<and> content user' = None \<and>
      (serves lup2 (User_ID user') \<lparr>Page = 1, PerPage = 1000\<rparr> pages2 \<longrightarrow>
         (\<exists>calls2. FetchUserContent lup2 mk user' =
                     Some (Inr (add_projects mk (concat pages2) \<lparr>Projects = Map.empty\<rparr>),
                           user'\<lparr>content :=
                             Some (add_projects mk (concat pages2) \<lparr>Projects = Map.empty\<rparr>)\<rparr>,
                           calls2) \<and>
                   length calls2 = length pages2)))"
proof (intro conjI impI)
  assume "serves_then_fails lup (User_ID user) \<lparr>Page = 1, PerPage = 1000\<rparr> pages err \<and>
    content user = None"
  then show "\<exists>calls. FetchUserContent lup mk user =
                 Some (Inl (''failed to fetch projects in gitlab: '' @ err), user, calls) \<and>
               length calls = Suc (length pages)"
    using FetchUserContent_fails by blast
next
  assume "FetchUserContent lup mk user = Some (Inl e, user', sent)"
  then show "user' = user"
    using FetchUserContent_error_user by blast
next
  assume "FetchUserContent lup mk user = Some (Inl e, user', sent)"
  then show "content user' = None"
    using FetchUserContent_error_user by metis
next
  assume a: "FetchUserContent lup mk user = Some (Inl e, user', sent)"
    and s: "serves lup2 (User_ID user') \<lparr>Page = 1, PerPage = 1000\<rparr> pages2"
  from a have "content user' = None"
    using FetchUserContent_error_user by metis
  with s show "\<exists>calls2. FetchUserContent lup2 mk user' =
                     Some (Inr (add_projects mk (concat pages2) \<lparr>Projects = Map.empty\<rparr>),
                           user'\<lparr>content :=
                             Some (add_projects mk (concat pages2) \<lparr>Projects = Map.empty\<rparr>)\<rparr>,
                           calls2) \<and>
                   length calls2 = length pages2"
    by (rule FetchUserContent_serves)
qed

theorem fetch_error_leaves_cache_unset_witness:
  "FetchUserContent
     (failing_remote
        [[\<lparr>gl_ID = 1, gl_Name = ''Tools'', gl_Path = ''tools'', gl_DefaultBranch = ''main'',
           gl_SSHURLToRepo = ''git@host:alice/tools.git'',
           gl_HTTPURLToRepo = ''https://host/alice/tools.git''\<rparr>]] ''timeout'')
     (newProjectFromGitlabProject ''http'')
     \<lparr>User_ID = 42, User_Name = ''alice'', content = None\<rparr> =
   Some (Inl ''failed to fetch projects in gitlab: timeout'',
         \<lparr>User_ID = 42, User_Name = ''alice'', content = None\<rparr>,
         [\<lparr>Page = 1, PerPage = 1000\<rparr>, \<lparr>Page = 2, PerPage = 1000\<rparr>]) \<and>
   fst (the (FetchUserContent
     (paged_remote
        [[\<lparr>gl_ID = 3, gl_Name = ''Docs'', gl_Path = ''docs'', gl_DefaultBranch = ''main'',
           gl_SSHURLToRepo = ''git@host:alice/docs.git'',
           gl_HTTPURLToRepo = ''https://host/alice/docs.git''\<rparr>]])
     (newProjectFromGitlabProject ''http'')
     \<lparr>User_ID = 42, User_Name = ''alice'', content = None\<rparr>)) =
   Inr \<lparr>Projects = [''docs'' \<mapsto>
          \<lparr>ID = 3, Name = ''docs'', CloneURL = ''https://host/alice/docs.git'',
           DefaultBranch = ''main''\<rparr>]\<rparr>"
proof -
  let ?p1 = "\<lparr>gl_ID = 1, gl_Name = ''Tools'', gl_Path = ''tools'', gl_DefaultBranch = ''main'',
           gl_SSHURLToRepo = ''git@host:alice/tools.git'',
           gl_HTTPURLToRepo = ''https://host/alice/tools.git''\<rparr>"
  let ?p3 = "\<lparr>gl_ID = 3, gl_Name = ''Docs'', gl_Path = ''docs'', gl_DefaultBranch = ''main'',
           gl_SSHURLToRepo = ''git@host:alice/docs.git'',
           gl_HTTPURLToRepo = ''https://host/alice/docs.git''\<rparr>"
  let ?u = "\<lparr>User_ID = 42, User_Name = ''alice'', content = None\<rparr>"
  let ?mk = "newProjectFromGitlabProject ''http''"
  have f: "serves_then_fails (failing_remote [[?p1]] ''timeout'') (User_ID ?u)
             \<lparr>Page = 1, PerPage = 1000\<rparr> [[?p1]] ''timeout'' \<and> content ?u = None"
    by (simp add: failing_remote_def)
  have run: "FetchUserContent (failing_remote [[?p1]] ''timeout'') ?mk ?u =
      Some (Inl ''failed to fetch projects in gitlab: timeout'', ?u,
            [\<lparr>Page = 1, PerPage = 1000\<rparr>, \<lparr>Page = 2, PerPage = 1000\<rparr>])"
    by (simp add: FetchUserContent_def fetch_pages.simps failing_remote_def)
  have s: "serves (paged_remote [[?p3]]) (User_ID ?u) \<lparr>Page = 1, PerPage = 1000\<rparr> [[?p3]]"
    by (simp add: paged_remote_def)
  from fetch_error_leaves_cache_unset [of "failing_remote [[?p1]] ''timeout''" ?u "[[?p1]]"
      "''timeout''" ?mk "''failed to fetch projects in gitlab: timeout''" ?u
      "[\<lparr>Page = 1, PerPage = 1000\<rparr>, \<lparr>Page = 2, PerPage = 1000\<rparr>]"
      "paged_remote [[?p3]]" "[[?p3]]"] f run s
  obtain calls2 where
    "FetchUserContent (paged_remote [[?p3]]) ?mk ?u =
       Some (Inr (add_projects ?mk (concat [[?p3]]) \<lparr>Projects = Map.empty\<rparr>),
             ?u\<lparr>content := Some (add_projects ?mk (concat [[?p3]]) \<lparr>Projects = Map.empty\<rparr>)\<rparr>,
             calls2)"
    by blast
  then have "fst (the (FetchUserContent (paged_remote [[?p3]]) ?mk ?u)) =
      Inr \<lparr>Projects = [''docs'' \<mapsto>
          \<lparr>ID = 3, Name = ''docs'', CloneURL = ''https://host/alice/docs.git'',
           DefaultBranch = ''main''\<rparr>]\<rparr>"
    by (simp add: add_projects_def newProjectFromGitlabProject_def PullMethodSSH_def Let_def)
  with run show ?thesis by (rule conjI)
qed

lemma requests_from_Suc:
  "map (\<lambda>k. \<lparr>Page = page_no + int k, PerPage = 1000\<rparr>) [0..<Suc n] =
   \<lparr>Page = page_no, PerPage = 1000\<rparr> #
   map (\<lambda>k. \<lparr>Page = page_no + 1 + int k, PerPage = 1000\<rparr>) [0..<n]"
proof -
  have "[0..<Suc n] = 0 # map Suc [0..<n]"
    by (simp add: upt_conv_Cons map_Suc_upt del: upt_Suc)
  then show ?thesis
    by (simp add: comp_def add.assoc del: upt_Suc)
qed

lemma fetch_pages_paginates:
  "paginates_from lup uid n_pages page_no pages \<Longrightarrow> pages \<noteq> [] \<Longrightarrow>
   n_pages = page_no + int (length pages) - 1 \<Longrightarrow>
   fetch_pages lup mk uid \<lparr>Page = page_no, PerPage = 1000\<rparr> c calls =
     Some (Inr (add_projects mk (concat pages) c),
           calls @ map (\<lambda>k. \<lparr>Page = page_no + int k, PerPage = 1000\<rparr>) [0..<length pages])"
proof (induction pages arbitrary: page_no c calls)
  case Nil
  then show ?case by simp
next
  case (Cons page pages)
  from Cons.prems(1) obtain response where
    r: "lup uid \<lparr>Page = page_no, PerPage = 1000\<rparr> = Inr (page, response)"
       "CurrentPage response = page_no" "TotalPages response = n_pages"
       "pages = [] \<or> NextPage response = page_no + 1"
       "paginates_from lup uid n_pages (page_no + 1) pages"
    by (auto split: sum.splits)
  show ?case
  proof (cases "pages = []")
    case True
    with r Cons.prems(3) show ?thesis
      by (subst fetch_pages.simps) (simp add: Let_def)
  next
    case False
    with r have n: "NextPage response = page_no + 1" by simp
    from False Cons.prems(3) r have lt: "\<not> TotalPages response \<le> CurrentPage response"
      by (cases pages) auto
    from Cons.prems(3) have t: "n_pages = (page_no + 1) + int (length pages) - 1" by simp
    note ih = Cons.IH [OF r(5) False t, of "add_projects mk page c" "calls @ [\<lparr>Page = page_no, PerPage = 1000\<rparr>]"]
    show ?thesis
      by (subst fetch_pages.simps)
        (simp add: r(1) lt n ih Let_def add_projects_append requests_from_Suc del: upt_Suc)
  qed
qed

lemma FetchUserContent_paginates:
  assumes "paginates lup (User_ID user) pages" and "content user = None"
  shows "FetchUserContent lup mk user =
           Some (Inr (add_projects mk (concat pages) \<lparr>Projects = Map.empty\<rparr>),
                 user\<lparr>content := Some (add_projects mk (concat pages) \<lparr>Projects = Map.empty\<rparr>)\<rparr>,
                 requests (length pages))"
proof -
  from assms(1) have p: "paginates_from lup (User_ID user) (int (length pages)) 1 pages"
    and ne: "pages \<noteq> []"
    by (simp_all add: paginates_def)
  from fetch_pages_paginates [OF p ne, of mk "\<lparr>Projects = Map.empty\<rparr>" "[]"] assms(2)
  show ?thesis
    by (simp add: FetchUserContent_def requests_def)
qed

text \<open>
  C8, as the code has it. The listing of the user has two pages of one project each, and
  the two projects share the path \<open>site\<close>. The call requests both pages and returns a
  content with one entry, the project of the second page; the project of the first
  page has none. With the two pages in the other order the content is another one.
\<close>

theorem pages_same_name_counterexample:
  "paginates
     (paged_remote
        [[\<lparr>gl_ID = 11, gl_Name = ''Site'', gl_Path = ''site'', gl_DefaultBranch = ''main'',
           gl_SSHURLToRepo = ''git@host:bob/site.git'',
           gl_HTTPURLToRepo = ''https://host/bob/site.git''\<rparr>],
         [\<lparr>gl_ID = 12, gl_Name = ''Site (fork)'', gl_Path = ''site'', gl_DefaultBranch = ''main'',
           gl_SSHURLToRepo = ''git@host:team/site.git'',
           gl_HTTPURLToRepo = ''https://host/team/site.git''\<rparr>]])
     7
     [[\<lparr>gl_ID = 11, gl_Name = ''Site'', gl_Path = ''site'', gl_DefaultBranch = ''main'',
        gl_SSHURLToRepo = ''git@host:bob/site.git'',
        gl_HTTPURLToRepo = ''https://host/bob/site.git''\<rparr>],
      [\<lparr>gl_ID = 12, gl_Name = ''Site (fork)'', gl_Path = ''site'', gl_DefaultBranch = ''main'',
        gl_SSHURLToRepo = ''git@host:team/site.git'',
        gl_HTTPURLToRepo = ''https://host/team/site.git''\<rparr>]] \<and>
   FetchUserContent
     (paged_remote
        [[\<lparr>gl_ID = 11, gl_Name = ''Site'', gl_Path = ''site'', gl_DefaultBranch = ''main'',
           gl_SSHURLToRepo = ''git@host:bob/site.git'',
           gl_HTTPURLToRepo = ''https://host/bob/site.git''\<rparr>],
         [\<lparr>gl_ID = 12, gl_Name = ''Site (fork)'', gl_Path = ''site'', gl_DefaultBranch = ''main'',
           gl_SSHURLToRepo = ''git@host:team/site.git'',
           gl_HTTPURLToRepo = ''https://host/team/site.git''\<rparr>]])
     (newProjectFromGitlabProject ''ssh'')
     \<lparr>User_ID = 7, User_Name = ''bob'', content = None\<rparr> =
   Some (Inr \<lparr>Projects = [''site'' \<mapsto>
                 \<lparr>ID = 12, Name = ''site'', CloneURL = ''git@host:team/site.git'',
                  DefaultBranch = ''main''\<rparr>]\<rparr>,
         \<lparr>User_ID = 7, User_Name = ''bob'',
          content = Some \<lparr>Projects = [''site'' \<mapsto>
                 \<lparr>ID = 12, Name = ''site'', CloneURL = ''git@host:team/site.git'',
                  DefaultBranch = ''main''\<rparr>]\<rparr>\<rparr>,
         [\<lparr>Page = 1, PerPage = 1000\<rparr>, \<lparr>Page = 2, PerPage = 1000\<rparr>]) \<and>
   \<lparr>ID = 11, Name = ''site'', CloneURL = ''git@host:bob/site.git'',
    DefaultBranch = ''main''\<rparr> \<notin>
   ran [''site'' \<mapsto>
          \<lparr>ID = 12, Name = ''site'', CloneURL = ''git@host:team/site.git'',
           DefaultBranch = ''main''\<rparr>] \<and>
   FetchUserContent
     (paged_remote
        [[\<lparr>gl_ID = 12, gl_Name = ''Site (fork)'', gl_Path = ''site'', gl_DefaultBranch = ''main'',
           gl_SSHURLToRepo = ''git@host:team/site.git'',
           gl_HTTPURLToRepo = ''https://host/team/site.git''\<rparr>],
         [\<lparr>gl_ID = 11, gl_Name = ''Site'', gl_Path = ''site'', gl_DefaultBranch = ''main'',
           gl_SSHURLToRepo = ''git@host:bob/site.git'',
           gl_HTTPURLToRepo = ''https://host/bob/site.git''\<rparr>]])
     (newProjectFromGitlabProject ''ssh'')
     \<lparr>User_ID = 7, User_Name = ''bob'', content = None\<rparr> =
   Some (Inr \<lparr>Projects = [''site'' \<mapsto>
                 \<lparr>ID = 11, Name = ''site'', CloneURL = ''git@host:bob/site.git'',
                  DefaultBranch = ''main''\<rparr>]\<rparr>,
         \<lparr>User_ID = 7, User_Name = ''bob'',
          content = Some \<lparr>Projects = [''site'' \<mapsto>
                 \<lparr>ID = 11, Name = ''site'', CloneURL = ''git@host:bob/site.git'',
                  DefaultBranch = ''main''\<rparr>]\<rparr>\<rparr>,
         [\<lparr>Page = 1, PerPage = 1000\<rparr>, \<lparr>Page = 2, PerPage = 1000\<rparr>])"
  by (simp add: paginates_def FetchUserContent_def fetch_pages.simps paged_remote_def
      add_projects_def newProjectFromGitlabProject_def PullMethodSSH_def Let_def)

text \<open>
  C8, amended. The listing of a user is cut into one or more pages, and the remote
  answers the request for each page with that page, its number and the number of pages.
  Then the call requests every page once, from the first to the last in order, and
  returns and caches a content that holds, under the name of every project of every
  page, one entry: the project of that name listed last. Its names are the names of
  all the projects of all the pages, and when no two projects share a name every
  project of every page has its own entry. The content is the same however the listing
  is cut into pages, and, when no two projects share a name, in whatever order the
  projects are listed.
\<close>

theorem all_pages_fetched:
  assumes "paginates lup (User_ID user) pages"
    and "content user = None"
  shows "\<exists>fetched.
           FetchUserContent lup mk user =
             Some (Inr fetched, user\<lparr>content := Some fetched\<rparr>, requests (length pages)) \<and>
           (\<forall>n. Projects fetched n =
                  (case filter (\<lambda>gp. Name (mk gp) = n) (concat pages) of
                     [] \<Rightarrow> None
                   | fs \<Rightarrow> Some (mk (last fs)))) \<and>
           dom (Projects fetched) = (\<lambda>gp. Name (mk gp)) ` set (concat pages) \<and>
           (distinct (map (\<lambda>gp. Name (mk gp)) (concat pages)) \<longrightarrow>
              (\<forall>gp\<in>set (concat pages). Projects fetched (Name (mk gp)) = Some (mk gp))) \<and>
           (\<forall>lup' pages'.
              paginates lup' (User_ID user) pages' \<and>
              (concat pages' = concat pages \<or>
               set (concat pages') = set (concat pages) \<and>
               distinct (map (\<lambda>gp. Name (mk gp)) (concat pages)) \<and>
               distinct (map (\<lambda>gp. Name (mk gp)) (concat pages'))) \<longrightarrow>
              FetchUserContent lup' mk user =
                Some (Inr fetched, user\<lparr>content := Some fetched\<rparr>, requests (length pages')))"
proof -
  let ?fetched = "add_projects mk (concat pages) \<lparr>Projects = Map.empty\<rparr>"
  note run = FetchUserContent_paginates [OF assms, of mk]
  have entries: "\<forall>n. Projects ?fetched n =
                  (case filter (\<lambda>gp. Name (mk gp) = n) (concat pages) of
                     [] \<Rightarrow> None
                   | fs \<Rightarrow> Some (mk (last fs)))"
    by (simp add: Projects_add_projects split: list.splits)
  have names: "dom (Projects ?fetched) = (\<lambda>gp. Name (mk gp)) ` set (concat pages)"
    by (simp add: dom_add_projects)
  have own: "distinct (map (\<lambda>gp. Name (mk gp)) (concat pages)) \<longrightarrow>
      (\<forall>gp\<in>set (concat pages). Projects ?fetched (Name (mk gp)) = Some (mk gp))"
    using Projects_add_projects_distinct by blast
  have other: "FetchUserContent lup' mk user =
                 Some (Inr ?fetched, user\<lparr>content := Some ?fetched\<rparr>, requests (length pages'))"
    if s: "paginates lup' (User_ID user) pages'"
      and e: "concat pages' = concat pages \<or>
               set (concat pages') = set (concat pages) \<and>
               distinct (map (\<lambda>gp. Name (mk gp)) (concat pages)) \<and>
               distinct (map (\<lambda>gp. Name (mk gp)) (concat pages'))"
    for lup' pages'
  proof -
    from e have "add_projects mk (concat pages') \<lparr>Projects = Map.empty\<rparr> = ?fetched"
      using add_projects_order_irrelevant [of mk "concat pages'" "concat pages"] by auto
    with FetchUserContent_paginates [OF s assms(2), of mk] show ?thesis by simp
  qed
  from run entries names own other show ?thesis by blast
qed

theorem all_pages_fetched_witness:
  "paginates
     (paged_remote
        [[\<lparr>gl_ID = 1, gl_Name = ''Tools'', gl_Path = ''tools'', gl_DefaultBranch = ''main'',
           gl_SSHURLToRepo = ''git@host:alice/tools.git'',
           gl_HTTPURLToRepo = ''https://host/alice/tools.git''\<rparr>],
         [\<lparr>gl_ID = 3, gl_Name = ''Docs'', gl_Path = ''docs'', gl_DefaultBranch = '''',
           gl_SSHURLToRepo = ''git@host:alice/docs.git'',
           gl_HTTPURLToRepo = ''https://host/alice/docs.git''\<rparr>]])
     42
     [[\<lparr>gl_ID = 1, gl_Name = ''Tools'', gl_Path = ''tools'', gl_DefaultBranch = ''main'',
        gl_SSHURLToRepo = ''git@host:alice/tools.git'',
        gl_HTTPURLToRepo = ''https://host/alice/tools.git''\<rparr>],
      [\<lparr>gl_ID = 3, gl_Name = ''Docs'', gl_Path = ''docs'', gl_DefaultBranch = '''',
        gl_SSHURLToRepo = ''git@host:alice/docs.git'',
        gl_HTTPURLToRepo = ''https://host/alice/docs.git''\<rparr>]] \<and>
   (\<exists>fetched.
      FetchUserContent
        (paged_remote
           [[\<lparr>gl_ID = 1, gl_Name = ''Tools'', gl_Path = ''tools'', gl_DefaultBranch = ''main'',
              gl_SSHURLToRepo = ''git@host:alice/tools.git'',
              gl_HTTPURLToRepo = ''https://host/alice/tools.git''\<rparr>],
            [\<lparr>gl_ID = 3, gl_Name = ''Docs'', gl_Path = ''docs'', gl_DefaultBranch = '''',
              gl_SSHURLToRepo = ''git@host:alice/docs.git'',
              gl_HTTPURLToRepo = ''https://host/alice/docs.git''\<rparr>]])
        (newProjectFromGitlabProject ''ssh'')
        \<lparr>User_ID = 42, User_Name = ''alice'', content = None\<rparr> =
        Some (Inr fetched,
              \<lparr>User_ID = 42, User_Name = ''alice'', content = Some fetched\<rparr>,
              [\<lparr>Page = 1, PerPage = 1000\<rparr>, \<lparr>Page = 2, PerPage = 1000\<rparr>]) \<and>
      dom (Projects fetched) = {''tools'', ''docs''} \<and>
      Projects fetched ''tools'' =
        Some \<lparr>ID = 1, Name = ''tools'', CloneURL = ''git@host:alice/tools.git'',
              DefaultBranch = ''main''\<rparr> \<and>
      Projects fetched ''docs'' =
        Some \<lparr>ID = 3, Name = ''docs'', CloneURL = ''git@host:alice/docs.git'',
              DefaultBranch = ''master''\<rparr>)"
proof -
  let ?p1 = "\<lparr>gl_ID = 1, gl_Name = ''Tools'', gl_Path = ''tools'', gl_DefaultBranch = ''main'',
           gl_SSHURLToRepo = ''git@host:alice/tools.git'',
           gl_HTTPURLToRepo = ''https://host/alice/tools.git''\<rparr>"
  let ?p3 = "\<lparr>gl_ID = 3, gl_Name = ''Docs'', gl_Path = ''docs'', gl_DefaultBranch = '''',
           gl_SSHURLToRepo = ''git@host:alice/docs.git'',
           gl_HTTPURLToRepo = ''https://host/alice/docs.git''\<rparr>"
  let ?u = "\<lparr>User_ID = 42, User_Name = ''alice'', content = None\<rparr>"
  let ?mk = "newProjectFromGitlabProject ''ssh''"
  have s: "paginates (paged_remote [[?p1], [?p3]]) (User_ID ?u) [[?p1], [?p3]]"
    by (simp add: paginates_def paged_remote_def)
  have c: "content ?u = None" by simp
  have d: "distinct (map (\<lambda>gp. Name (?mk gp)) (concat [[?p1], [?p3]]))"
    by (simp add: newProjectFromGitlabProject_def Let_def)
  have q: "requests (length [[?p1], [?p3]]) =
           [\<lparr>Page = 1, PerPage = 1000\<rparr>, \<lparr>Page = 2, PerPage = 1000\<rparr>]"
    by (simp add: requests_def upt_rec)
  from all_pages_fetched [OF s c, of ?mk] obtain fetched where
    run: "FetchUserContent (paged_remote [[?p1], [?p3]]) ?mk ?u =
            Some (Inr fetched, ?u\<lparr>content := Some fetched\<rparr>, requests (length [[?p1], [?p3]]))"
    and names: "dom (Projects fetched) = (\<lambda>gp. Name (?mk gp)) ` set (concat [[?p1], [?p3]])"
    and own: "distinct (map (\<lambda>gp. Name (?mk gp)) (concat [[?p1], [?p3]])) \<longrightarrow>
      (\<forall>gp\<in>set (concat [[?p1], [?p3]]). Projects fetched (Name (?mk gp)) = Some (?mk gp))"
    by blast
  from own d have e: "\<forall>gp\<in>set (concat [[?p1], [?p3]]). Projects fetched (Name (?mk gp)) = Some (?mk gp)"
    by blast
  have t: "Projects fetched ''tools'' =
        Some \<lparr>ID = 1, Name = ''tools'', CloneURL = ''git@host:alice/tools.git'',
              DefaultBranch = ''main''\<rparr>"
    using e [rule_format, of ?p1]
    by (simp add: newProjectFromGitlabProject_def PullMethodSSH_def Let_def)
  have o: "Projects fetched ''docs'' =
        Some \<lparr>ID = 3, Name = ''docs'', CloneURL = ''git@host:alice/docs.git'',
              DefaultBranch = ''master''\<rparr>"
    using e [rule_format, of ?p3]
    by (simp add: newProjectFromGitlabProject_def PullMethodSSH_def Let_def)
  from names have n: "dom (Projects fetched) = {''tools'', ''docs''}"
    by (simp add: newProjectFromGitlabProject_def Let_def)
  from run q have run': "FetchUserContent (paged_remote [[?p1], [?p3]]) ?mk ?u =
            Some (Inr fetched, \<lparr>User_ID = 42, User_Name = ''alice'', content = Some fetched\<rparr>,
                  [\<lparr>Page = 1, PerPage = 1000\<rparr>, \<lparr>Page = 2, PerPage = 1000\<rparr>])"
    by simp
  from s run' n t o show ?thesis by auto
qed

section \<open>Properties of the startup\<close>

lemma makeGitlabConfig_invalid:
  "PullMethod (Git config) \<notin> {PullMethodHTTP, PullMethodSSH} \<Longrightarrow>
   makeGitlabConfig config =
     Inl (''pull_method must be either '' @ quote @ ''http'' @ quote @ '' or '' @
          quote @ ''ssh'' @ quote)"
  by (simp add: makeGitlabConfig_def PullMethodHTTP_def PullMethodSSH_def)

lemma makeGitConfig_invalid:
  "OnClone (Git config) \<notin> {''init'', ''clone''} \<Longrightarrow>
   makeGitConfig url_Parse config =
     (case url_Parse (URL (Gitlab config)) of
        Inl err \<Rightarrow> Inl err
      | Inr parsed \<Rightarrow>
          Inl (''on_clone must be either '' @ quote @ ''init'' @ quote @ '' or '' @
               quote @ ''clone'' @ quote))"
  by (simp add: makeGitConfig_def split: sum.splits)

text \<open>
  C2, as the code has it. With the default configuration, a mountpoint on the command
  line and the queue size set to 0, \<open>main\<close> prints nothing, builds both clients, passing
  the queue size 0 to the git client, starts the filesystem and returns with status 0.
\<close>

theorem queue_size_zero_counterexample:
  "main Inr None
     (Inr ((default_Config ''/data/gitlabfs'')
             \<lparr>Git := (Git (default_Config ''/data/gitlabfs''))\<lparr>QueueSize := 0\<rparr>\<rparr>))
     [''/mnt''] '''' False =
   ([git_NewClient
       \<lparr>git_CloneLocation = ''/data/gitlabfs'', git_RemoteName = ''origin'',
        git_RemoteURL = ''https://gitlab.com'', git_CloneMethod = CloneInit,
        git_AutoPull = False, git_PullDepth = 0, git_QueueSize = 0,
        git_QueueWorkerCount = 5\<rparr>,
     gitlab_NewClient ''https://gitlab.com'' ''''
       \<lparr>gitlab_PullMethod = ''http'', gitlab_IncludeCurrentUser = False\<rparr>,
     fs_Start ''/mnt'' [''nodev'', ''nosuid''] [9970] [] False],
    0)"
  by (simp add: main_def default_Config_def makeGitConfig_def makeGitlabConfig_def
      PullMethodHTTP_def PullMethodSSH_def Let_def)

text \<open>
  C2, amended. For every configuration that \<open>loadConfig\<close> returns, if the pull method is
  not one of its two values or \<open>on_clone\<close> is not one of its two values, then \<open>main\<close> prints a
  message and exits with a status other than 0, and neither builds the gitlab client
  nor starts the filesystem; with an invalid \<open>on_clone\<close> it does not build the git client
  either. The message is that of the first check that fails, in the order of \<open>main\<close>:
  without a mountpoint, the message about the mountpoint and the usage text, with
  status 2; with a mountpoint and a gitlab URL that does not parse, the error of
  \<open>url.Parse\<close>, with status 1; with a mountpoint, a URL that parses and an invalid
  \<open>on_clone\<close>, the message about \<open>on_clone\<close> and nothing else, with status 1; with a
  mountpoint, a URL that parses, a valid \<open>on_clone\<close> and an invalid pull method, the
  message about \<open>pull_method\<close>, with status 1, printed after the git client has been built
  with the queue size of the configuration. Nothing is said of the queue size, which
  the code does not check.
\<close>

theorem invalid_config_fails_startup:
  assumes "PullMethod (Git config) \<notin> {PullMethodHTTP, PullMethodSSH} \<or>
           OnClone (Git config) \<notin> {''init'', ''clone''}"
  shows "(case main url_Parse fs_Start_err (Inr config) args mountoptionsFlag debug of
            (actions, status) \<Rightarrow>
              status \<noteq> 0 \<and>
              (\<exists>msg. Println msg \<in> set actions) \<and>
              (\<forall>u t p. gitlab_NewClient u t p \<notin> set actions) \<and>
              (\<forall>m os gs us d. fs_Start m os gs us d \<notin> set actions) \<and>
              (OnClone (Git config) \<notin> {''init'', ''clone''} \<longrightarrow>
                 (\<forall>p. git_NewClient p \<notin> set actions))) \<and>
         ((if length args = 1 then hd args else Mountpoint (FS config)) = '''' \<longrightarrow>
            main url_Parse fs_Start_err (Inr config) args mountoptionsFlag debug =
              ([Println ''Mountpoint is not configured in config file and missing from command-line arguments'',
                flag_Usage], 2)) \<and>
         ((if length args = 1 then hd args else Mountpoint (FS config)) \<noteq> '''' \<and>
          url_Parse (URL (Gitlab config)) = Inl err \<longrightarrow>
            main url_Parse fs_Start_err (Inr config) args mountoptionsFlag debug =
              ([Println err], 1)) \<and>
         ((if length args = 1 then hd args else Mountpoint (FS config)) \<noteq> '''' \<and>
          url_Parse (URL (Gitlab config)) = Inr parsed \<longrightarrow>
            (OnClone (Git config) \<notin> {''init'', ''clone''} \<longrightarrow>
               main url_Parse fs_Start_err (Inr config) args mountoptionsFlag debug =
                 ([Println (''on_clone must be either '' @ quote @ ''init'' @ quote @ '' or '' @
                            quote @ ''clone'' @ quote)], 1)) \<and>
            (OnClone (Git config) \<in> {''init'', ''clone''} \<longrightarrow>
               (\<exists>gitClientParam.
                  makeGitConfig url_Parse config = Inr gitClientParam \<and>
                  git_QueueSize gitClientParam = QueueSize (Git config) \<and>
                  main url_Parse fs_Start_err (Inr config) args mountoptionsFlag debug =
                    ([git_NewClient gitClientParam,
                      Println (''pull_method must be either '' @ quote @ ''http'' @ quote @
                               '' or '' @ quote @ ''ssh'' @ quote)], 1))))"
proof (intro conjI impI)
  show "case main url_Parse fs_Start_err (Inr config) args mountoptionsFlag debug of
            (actions, status) \<Rightarrow>
              status \<noteq> 0 \<and>
              (\<exists>msg. Println msg \<in> set actions) \<and>
              (\<forall>u t p. gitlab_NewClient u t p \<notin> set actions) \<and>
              (\<forall>m os gs us d. fs_Start m os gs us d \<notin> set actions) \<and>
              (OnClone (Git config) \<notin> {''init'', ''clone''} \<longrightarrow>
                 (\<forall>p. git_NewClient p \<notin> set actions))"
  proof (cases "OnClone (Git config) \<in> {''init'', ''clone''}")
    case True
    with assms have "PullMethod (Git config) \<notin> {PullMethodHTTP, PullMethodSSH}" by blast
    from makeGitlabConfig_invalid [OF this] True show ?thesis
      by (simp add: main_def Let_def split: sum.splits)
  next
    case False
    from makeGitConfig_invalid [OF this, of url_Parse] False show ?thesis
      by (simp add: main_def Let_def split: sum.splits)
  qed
next
  assume "(if length args = 1 then hd args else Mountpoint (FS config)) = ''''"
  then show "main url_Parse fs_Start_err (Inr config) args mountoptionsFlag debug =
              ([Println ''Mountpoint is not configured in config file and missing from command-line arguments'',
                flag_Usage], 2)"
    by (simp add: main_def Let_def)
next
  assume "(if length args = 1 then hd args else Mountpoint (FS config)) \<noteq> '''' \<and>
          url_Parse (URL (Gitlab config)) = Inl err"
  then show "main url_Parse fs_Start_err (Inr config) args mountoptionsFlag debug =
              ([Println err], 1)"
    by (simp add: main_def makeGitConfig_def Let_def)
next
  assume m: "(if length args = 1 then hd args else Mountpoint (FS config)) \<noteq> '''' \<and>
          url_Parse (URL (Gitlab config)) = Inr parsed"
    and o: "OnClone (Git config) \<notin> {''init'', ''clone''}"
  from makeGitConfig_invalid [OF o, of url_Parse] m
  show "main url_Parse fs_Start_err (Inr config) args mountoptionsFlag debug =
                 ([Println (''on_clone must be either '' @ quote @ ''init'' @ quote @ '' or '' @
                            quote @ ''clone'' @ quote)], 1)"
    by (simp add: main_def Let_def)
next
  assume m: "(if length args = 1 then hd args else Mountpoint (FS config)) \<noteq> '''' \<and>
          url_Parse (URL (Gitlab config)) = Inr parsed"
    and o: "OnClone (Git config) \<in> {''init'', ''clone''}"
  from assms o have "PullMethod (Git config) \<notin> {PullMethodHTTP, PullMethodSSH}" by blast
  note p = makeGitlabConfig_invalid [OF this]
  from o m obtain gitClientParam where
    g: "makeGitConfig url_Parse config = Inr gitClientParam"
       "git_QueueSize gitClientParam = QueueSize (Git config)"
    by (auto simp: makeGitConfig_def)
  with p m have "main url_Parse fs_Start_err (Inr config) args mountoptionsFlag debug =
                    ([git_NewClient gitClientParam,
                      Println (''pull_method must be either '' @ quote @ ''http'' @ quote @
                               '' or '' @ quote @ ''ssh'' @ quote)], 1)"
    by (simp add: main_def Let_def)
  with g show "\<exists>gitClientParam.
                  makeGitConfig url_Parse config = Inr gitClientParam \<and>
                  git_QueueSize gitClientParam = QueueSize (Git config) \<and>
                  main url_Parse fs_Start_err (Inr config) args mountoptionsFlag debug =
                    ([git_NewClient gitClientParam,
                      Println (''pull_method must be either '' @ quote @ ''http'' @ quote @
                               '' or '' @ quote @ ''ssh'' @ quote)], 1)"
    by blast
qed

theorem invalid_config_fails_startup_witness:
  "main Inr None
     (Inr ((default_Config ''/data/gitlabfs'')
             \<lparr>Git := (Git (default_Config ''/data/gitlabfs''))\<lparr>OnClone := ''mirror''\<rparr>\<rparr>))
     [''/mnt''] '''' False =
   ([Println (''on_clone must be either '' @ quote @ ''init'' @ quote @ '' or '' @
              quote @ ''clone'' @ quote)], 1) \<and>
   main Inr None
     (Inr ((default_Config ''/data/gitlabfs'')
             \<lparr>Git := (Git (default_Config ''/data/gitlabfs''))\<lparr>PullMethod := ''git''\<rparr>\<rparr>))
     [''/mnt''] '''' False =
   ([git_NewClient
       \<lparr>git_CloneLocation = ''/data/gitlabfs'', git_RemoteName = ''origin'',
        git_RemoteURL = ''https://gitlab.com'', git_CloneMethod = CloneInit,
        git_AutoPull = False, git_PullDepth = 0, git_QueueSize = 200,
        git_QueueWorkerCount = 5\<rparr>,
     Println (''pull_method must be either '' @ quote @ ''http'' @ quote @ '' or '' @
              quote @ ''ssh'' @ quote)], 1) \<and>
   main Inr None
     (Inr ((default_Config ''/data/gitlabfs'')
             \<lparr>Git := (Git (default_Config ''/data/gitlabfs''))\<lparr>OnClone := ''mirror''\<rparr>\<rparr>))
     [] '''' False =
   ([Println ''Mountpoint is not configured in config file and missing from command-line arguments'',
     flag_Usage], 2) \<and>
   main (\<lambda>s. Inl ''missing protocol scheme'' :: string + string) None
     (Inr ((default_Config ''/data/gitlabfs'')
             \<lparr>Git := (Git (default_Config ''/data/gitlabfs''))\<lparr>PullMethod := ''git''\<rparr>\<rparr>))
     [''/mnt''] '''' False =
   ([Println ''missing protocol scheme''], 1)"
proof -
  let ?c1 = "(default_Config ''/data/gitlabfs'')
             \<lparr>Git := (Git (default_Config ''/data/gitlabfs''))\<lparr>OnClone := ''mirror''\<rparr>\<rparr>"
  let ?c2 = "(default_Config ''/data/gitlabfs'')
             \<lparr>Git := (Git (default_Config ''/data/gitlabfs''))\<lparr>PullMethod := ''git''\<rparr>\<rparr>"
  let ?ok = "Inr :: string \<Rightarrow> string + string"
  let ?bad = "\<lambda>s. Inl ''missing protocol scheme'' :: string + string"
  have h1: "PullMethod (Git ?c1) \<notin> {PullMethodHTTP, PullMethodSSH} \<or>
            OnClone (Git ?c1) \<notin> {''init'', ''clone''}"
    by (simp add: default_Config_def)
  have h2: "PullMethod (Git ?c2) \<notin> {PullMethodHTTP, PullMethodSSH} \<or>
            OnClone (Git ?c2) \<notin> {''init'', ''clone''}"
    by (simp add: default_Config_def PullMethodHTTP_def PullMethodSSH_def)
  have a: "main ?ok None (Inr ?c1) [''/mnt''] '''' False =
     ([Println (''on_clone must be either '' @ quote @ ''init'' @ quote @ '' or '' @
              quote @ ''clone'' @ quote)], 1)"
    using invalid_config_fails_startup [OF h1, where url_Parse = ?ok and fs_Start_err = None
        and args = "[''/mnt'']" and mountoptionsFlag = "''''" and debug = False
        and parsed = "''https://gitlab.com''" and err = "''''"]
    by (simp add: default_Config_def)
  have b: "main ?ok None (Inr ?c2) [''/mnt''] '''' False =
     ([git_NewClient
       \<lparr>git_CloneLocation = ''/data/gitlabfs'', git_RemoteName = ''origin'',
        git_RemoteURL = ''https://gitlab.com'', git_CloneMethod = CloneInit,
        git_AutoPull = False, git_PullDepth = 0, git_QueueSize = 200,
        git_QueueWorkerCount = 5\<rparr>,
     Println (''pull_method must be either '' @ quote @ ''http'' @ quote @ '' or '' @
              quote @ ''ssh'' @ quote)], 1)"
    using invalid_config_fails_startup [OF h2, where url_Parse = ?ok and fs_Start_err = None
        and args = "[''/mnt'']" and mountoptionsFlag = "''''" and debug = False
        and parsed = "''https://gitlab.com''" and err = "''''"]
    by (auto simp: default_Config_def makeGitConfig_def)
  have c: "main ?ok None (Inr ?c1) [] '''' False =
     ([Println ''Mountpoint is not configured in config file and missing from command-line arguments'',
       flag_Usage], 2)"
    using invalid_config_fails_startup [OF h1, where url_Parse = ?ok and fs_Start_err = None
        and args = "[]" and mountoptionsFlag = "''''" and debug = False
        and parsed = "''https://gitlab.com''" and err = "''''"]
    by (simp add: default_Config_def)
  have d: "main ?bad None (Inr ?c2) [''/mnt''] '''' False =
     ([Println ''missing protocol scheme''], 1)"
    using invalid_config_fails_startup [OF h2, where url_Parse = ?bad and fs_Start_err = None
        and args = "[''/mnt'']" and mountoptionsFlag = "''''" and debug = False
        and parsed = "''https://gitlab.com''" and err = "''missing protocol scheme''"]
    by (simp add: default_Config_def)
  from a b c d show ?thesis by simp
qed

text \<open>
  C9. The parameters of the gitlab client ask for the current user exactly when the
  option \<open>include_current_user\<close> is set and the token is not empty; this holds for the
  parameters \<open>makeGitlabConfig\<close> returns and for those \<open>main\<close> builds the gitlab client with.
\<close>

theorem include_current_user_iff:
  "(makeGitlabConfig config = Inr param \<longrightarrow>
      gitlab_IncludeCurrentUser param =
        (IncludeCurrentUser (Gitlab config) \<and> Token (Gitlab config) \<noteq> '''')) \<and>
   (gitlab_NewClient url token param' \<in>
      set (fst (main url_Parse fs_Start_err (Inr config) args mountoptionsFlag debug)) \<longrightarrow>
      token = Token (Gitlab config) \<and>
      gitlab_IncludeCurrentUser param' =
        (IncludeCurrentUser (Gitlab config) \<and> Token (Gitlab config) \<noteq> ''''))"
  by (auto simp: makeGitlabConfig_def main_def Let_def split: if_splits sum.splits option.splits)

theorem include_current_user_iff_witness:
  "makeGitlabConfig (default_Config ''/data/gitlabfs'') =
     Inr \<lparr>gitlab_PullMethod = ''http'', gitlab_IncludeCurrentUser = False\<rparr> \<and>
   makeGitlabConfig
     ((default_Config ''/data/gitlabfs'')
        \<lparr>Gitlab := (Gitlab (default_Config ''/data/gitlabfs''))\<lparr>Token := ''s3cret''\<rparr>\<rparr>) =
     Inr \<lparr>gitlab_PullMethod = ''http'', gitlab_IncludeCurrentUser = True\<rparr> \<and>
   IncludeCurrentUser (Gitlab (default_Config ''/data/gitlabfs'')) \<and>
   Token (Gitlab (default_Config ''/data/gitlabfs'')) = ''''"
proof -
  let ?c = "default_Config ''/data/gitlabfs''"
  let ?d = "?c\<lparr>Gitlab := (Gitlab ?c)\<lparr>Token := ''s3cret''\<rparr>\<rparr>"
  obtain p where p: "makeGitlabConfig ?c = Inr p" "gitlab_PullMethod p = ''http''"
    by (simp add: makeGitlabConfig_def default_Config_def PullMethodHTTP_def)
  obtain q where q: "makeGitlabConfig ?d = Inr q" "gitlab_PullMethod q = ''http''"
    by (simp add: makeGitlabConfig_def default_Config_def PullMethodHTTP_def)
  from include_current_user_iff [THEN conjunct1, of ?c p] p
  have "gitlab_IncludeCurrentUser p = False"
    by (simp add: default_Config_def)
  with p have a: "makeGitlabConfig ?c =
      Inr \<lparr>gitlab_PullMethod = ''http'', gitlab_IncludeCurrentUser = False\<rparr>"
    by simp
  from include_current_user_iff [THEN conjunct1, of ?d q] q
  have "gitlab_IncludeCurrentUser q = True"
    by (simp add: default_Config_def)
  with q have b: "makeGitlabConfig ?d =
      Inr \<lparr>gitlab_PullMethod = ''http'', gitlab_IncludeCurrentUser = True\<rparr>"
    by simp
  from a b show ?thesis
    by (simp add: default_Config_def)
qed

end
